theory Spec2Isabelle
  imports Complex_Main
begin

section \<open>The camera (camera.py)\<close>

text \<open>
  The camera works on \<open>numpy.float64\<close> values.  They are idealised here as real
  numbers, so every statement below is one of exact real arithmetic: rounding, NaN,
  infinities and signed zeros are outside the model.

  A vector of two floats is a pair, and a 2x2 array is the pair of its rows.
\<close>

type_synonym vec2 = "real \<times> real"
type_synonym mat2 = "vec2 \<times> vec2"

text \<open>The operator \<open>@\<close> of numpy on two 2x2 arrays: the matrix product.\<close>

definition matmul :: "mat2 \<Rightarrow> mat2 \<Rightarrow> mat2" where
  "matmul A B =
     (case A of ((a11, a12), (a21, a22)) \<Rightarrow>
      case B of ((b11, b12), (b21, b22)) \<Rightarrow>
        ((a11 * b11 + a12 * b21, a11 * b12 + a12 * b22),
         (a21 * b11 + a22 * b21, a21 * b12 + a22 * b22)))"

text \<open>
  \<^verbatim>\<open>
  def rotation_matrix(theta):
      x = np.cos(theta)
      y = np.sin(theta)
      return np.array([[x, y], [-y, x]], np.float64)
  \<close>
\<close>

definition rotation_matrix :: "real \<Rightarrow> mat2" where
  "rotation_matrix theta = (let x = cos theta; y = sin theta in ((x, y), (- y, x)))"

text \<open>
  \<open>np.arctan2 x1 x2\<close> on reals: the angle in \<open>(-pi, pi]\<close> of the point with abscissa
  \<open>x2\<close> and ordinate \<open>x1\<close>, and \<open>0\<close> at the origin.
\<close>

definition arctan2 :: "real \<Rightarrow> real \<Rightarrow> real" where
  "arctan2 y x =
     (if 0 < x then arctan (y / x)
      else if x < 0 \<and> 0 \<le> y then arctan (y / x) + pi
      else if x < 0 then arctan (y / x) - pi
      else if 0 < y then pi / 2
      else if y < 0 then - (pi / 2)
      else 0)"

text \<open>\<open>np.linalg.norm\<close> of a vector of two floats: the Euclidean norm.\<close>

definition linalg_norm :: "vec2 \<Rightarrow> real" where
  "linalg_norm v = (case v of (a, b) \<Rightarrow> sqrt (a * a + b * b))"

text \<open>
  The attributes of a \<open>Camera\<close> object: \<open>pos\<close> and \<open>_plane\<close> (an identifier cannot
  start with an underscore here, hence \<open>plane\<close>).
\<close>

record Camera =
  pos :: vec2
  plane :: mat2

text \<open>
  \<^verbatim>\<open>
  def _build_plane(self, theta, fov):
      initial_plane = np.array([[1.001, 0.001], [0.0, fov]], np.float64)
      self._plane = initial_plane @ rotation_matrix(theta)
  \<close>
\<close>

definition build_plane :: "Camera \<Rightarrow> real \<Rightarrow> real \<Rightarrow> Camera" where
  "build_plane self theta fov =
     (let initial_plane = ((1001 / 1000, 1 / 1000), (0, fov))
      in self\<lparr>plane := matmul initial_plane (rotation_matrix theta)\<rparr>)"

text \<open>
  \<^verbatim>\<open>
  def __init__(self, pos=(0.0, 0.0), theta=0.0, fov=0.66):
      self.pos = pos
      if fov > 1.0:
          fov = 1.0
      elif fov < 0.0:
          fov = 0.0
      self._plane = np.empty((2, 2), np.float64)
      self._build_plane(theta, fov)
  \<close>
  The contents of \<open>np.empty\<close> are arbitrary and are overwritten by \<open>_build_plane\<close>
  before anything reads them; the model starts from zeros.
\<close>

definition Camera_init :: "vec2 \<Rightarrow> real \<Rightarrow> real \<Rightarrow> Camera" where
  "Camera_init p theta fov =
     (let fov' = (if fov > 1 then 1 else if fov < 0 then 0 else fov);
          self = \<lparr>pos = p, plane = ((0, 0), (0, 0))\<rparr>
      in build_plane self theta fov')"

text \<open>
  The property \<open>theta\<close>:
  \<^verbatim>\<open>
      x2, x1 = self._plane[0]
      return np.arctan2(x1, x2)
  \<close>
\<close>

definition theta :: "Camera \<Rightarrow> real" where
  "theta self = (case fst (plane self) of (x2, x1) \<Rightarrow> arctan2 x1 x2)"

text \<open>The property \<open>fov\<close>: \<^verbatim>\<open>return np.linalg.norm(self._plane[1]).item()\<close>\<close>

definition fov :: "Camera \<Rightarrow> real" where
  "fov self = linalg_norm (snd (plane self))"

text \<open>The setter of \<open>theta\<close>: \<^verbatim>\<open>self._build_plane(theta, self.fov)\<close>\<close>

definition set_theta :: "Camera \<Rightarrow> real \<Rightarrow> Camera" where
  "set_theta self th = build_plane self th (fov self)"

text \<open>The setter of \<open>fov\<close>: \<^verbatim>\<open>self._build_plane(self.theta, fov)\<close>\<close>

definition set_fov :: "Camera \<Rightarrow> real \<Rightarrow> Camera" where
  "set_fov self f = build_plane self (theta self) f"

text \<open>
  \<^verbatim>\<open>
  def rotate(self, theta):
      self._plane = self._plane @ rotation_matrix(theta)
  \<close>
  The method is named \<open>Camera_rotate\<close> here, \<open>rotate\<close> being a function on lists.
\<close>

definition Camera_rotate :: "Camera \<Rightarrow> real \<Rightarrow> Camera" where
  "Camera_rotate self th = self\<lparr>plane := matmul (plane self) (rotation_matrix th)\<rparr>"

section \<open>Arrays and the map reader (read_assets.py)\<close>

text \<open>The exceptions of the program, as values.\<close>

datatype error = ValueError | IndexError | KeyError | TypeError | PreconditionViolation

text \<open>
  A numpy array of unsigned integers with one or two dimensions; no other shape arises
  from \<open>read_map\<close>.  \<open>Array1 xs\<close> has shape \<open>(length xs,)\<close>.  \<open>Array2 n m rows\<close> has shape
  \<open>(n, m)\<close>: \<open>rows\<close> holds its \<open>n\<close> rows of \<open>m\<close> entries each, and the shape is kept beside
  them because an array of shape \<open>(0, m)\<close> has no row to read \<open>m\<close> from.
\<close>

datatype ndarray = Array1 "nat list" | Array2 nat nat "nat list list"

fun shape :: "ndarray \<Rightarrow> nat list" where
  "shape (Array1 xs) = [length xs]"
| "shape (Array2 n m rows) = [n, m]"

text \<open>
  \<open>np.array(rows, dtype=np.uint32)\<close> on a list of lists of small integers (the entries
  here are values of decimal digits).  The empty list gives the one-dimensional array of
  shape \<open>(0,)\<close>; lists of one common length \<open>m\<close> give a two-dimensional array (of shape
  \<open>(n, 0)\<close> when they are all empty); lists of different lengths raise \<open>ValueError\<close>.
\<close>

fun np_array :: "nat list list \<Rightarrow> error + ndarray" where
  "np_array [] = Inr (Array1 [])"
| "np_array (r # rs) =
     (if list_all (\<lambda>r'. length r' = length r) rs
      then Inr (Array2 (Suc (length rs)) (length r) (r # rs))
      else Inl ValueError)"

text \<open>
  The attribute \<open>.T\<close>: a one-dimensional array is its own transpose; row \<open>j\<close> of the
  transpose of a two-dimensional array is column \<open>j\<close> of the array.
\<close>

fun ndarray_T :: "ndarray \<Rightarrow> ndarray" where
  "ndarray_T (Array1 xs) = Array1 xs"
| "ndarray_T (Array2 n m rows) = Array2 m n (map (\<lambda>j. map (\<lambda>r. r ! j) rows) [0..<m])"

text \<open>
  An index \<open>i\<close> into a dimension of size \<open>n\<close>, as numpy reads it: \<open>IndexError\<close> outside
  \<open>[-n, n)\<close>, and a negative index counts from the end.
\<close>

definition norm_index :: "nat \<Rightarrow> int \<Rightarrow> error + nat" where
  "norm_index n i =
     (if i < - int n \<or> int n \<le> i then Inl IndexError
      else Inr (nat (if i < 0 then i + int n else i)))"

text \<open>
  \<open>a[i, j]\<close>.  Two indices into a one-dimensional array raise \<open>IndexError\<close> (too many
  indices).
\<close>

fun getitem2 :: "ndarray \<Rightarrow> int \<Rightarrow> int \<Rightarrow> error + nat" where
  "getitem2 (Array1 xs) i j = Inl IndexError"
| "getitem2 (Array2 n m rows) i j =
     (case norm_index n i of
        Inl e \<Rightarrow> Inl e
      | Inr i' \<Rightarrow>
          (case norm_index m j of
             Inl e \<Rightarrow> Inl e
           | Inr j' \<Rightarrow> Inr (rows ! i' ! j')))"

text \<open>
  \<open>str.splitlines\<close> on a text whose characters are below 256: a line ends at a line
  feed, a carriage return, a carriage return followed by a line feed, or one of the other
  line boundaries of Python (vertical tab, form feed, file, group and record separators,
  next line); the boundaries are dropped and there is no empty last line.  The first
  argument accumulates the current line, reversed.
\<close>

definition is_linebreak :: "char \<Rightarrow> bool" where
  "is_linebreak c = (of_char c \<in> {10, 11, 12, 13, 28, 29, 30, 133 :: nat})"

fun splitlines_from :: "string \<Rightarrow> string \<Rightarrow> string list" where
  "splitlines_from cur [] = (if cur = [] then [] else [rev cur])"
| "splitlines_from cur (c # cs) =
     (if is_linebreak c then
        (case cs of
           c' # cs' \<Rightarrow>
             if of_char c = (13::nat) \<and> of_char c' = (10::nat)
             then rev cur # splitlines_from [] cs'
             else rev cur # splitlines_from [] (c' # cs')
         | [] \<Rightarrow> [rev cur])
      else splitlines_from (c # cur) cs)"

definition splitlines :: "string \<Rightarrow> string list" where
  "splitlines text = splitlines_from [] text"

text \<open>
  \<open>int(cell)\<close> on a string of one character below 256: the value of a decimal digit,
  and \<open>ValueError\<close> for any other character.
\<close>

definition int_of_cell :: "char \<Rightarrow> error + nat" where
  "int_of_cell c =
     (let k = (of_char c :: nat)
      in if 48 \<le> k \<and> k \<le> 57 then Inr (k - 48) else Inl ValueError)"

text \<open>A list comprehension whose element expression can raise: the first error wins.\<close>

fun comprehension :: "('a \<Rightarrow> error + 'b) \<Rightarrow> 'a list \<Rightarrow> error + 'b list" where
  "comprehension f [] = Inr []"
| "comprehension f (x # xs) =
     (case f x of
        Inl e \<Rightarrow> Inl e
      | Inr y \<Rightarrow>
          (case comprehension f xs of
             Inl e \<Rightarrow> Inl e
           | Inr ys \<Rightarrow> Inr (y # ys)))"

text \<open>
  \<^verbatim>\<open>
  def read_map(path):
      text = path.read_text()
      return np.array(
          [[int(cell) for cell in line] for line in text.splitlines()], dtype=np.uint32
      ).T
  \<close>
  The model takes the text that \<open>read_text\<close> returns.
\<close>

definition read_map :: "string \<Rightarrow> error + ndarray" where
  "read_map text =
     (case comprehension (comprehension int_of_cell) (splitlines text) of
        Inl e \<Rightarrow> Inl e
      | Inr rows \<Rightarrow>
          (case np_array rows of
             Inl e \<Rightarrow> Inl e
           | Inr a \<Rightarrow> Inr (ndarray_T a)))"

section \<open>Collision-checked movement (engine.py)\<close>

text \<open>\<open>int(x)\<close> on a float: truncation towards zero.\<close>

definition py_int :: "real \<Rightarrow> int" where
  "py_int x = (if 0 \<le> x then \<lfloor>x\<rfloor> else \<lceil>x\<rceil>)"

text \<open>
  \<^verbatim>\<open>
  def _move_to(camera, game_map, pos):
      old_x, old_y = camera.pos
      x, y = pos
      if game_map[int(x), int(y)] == 0:
          camera.pos = x, y
      elif game_map[int(x), int(old_y)] == 0:
          camera.pos = x, old_y
      elif game_map[int(old_x), int(y)] == 0:
          camera.pos = old_x, y
  \<close>
  The function mutates the camera; the model returns the camera after the call, or the
  \<open>IndexError\<close> of a lookup.  Each lookup happens only when the tests before it failed.
\<close>

definition move_to :: "Camera \<Rightarrow> ndarray \<Rightarrow> vec2 \<Rightarrow> error + Camera" where
  "move_to cam gmap p =
     (case pos cam of (old_x, old_y) \<Rightarrow>
      case p of (x, y) \<Rightarrow>
        (case getitem2 gmap (py_int x) (py_int y) of
           Inl e \<Rightarrow> Inl e
         | Inr c1 \<Rightarrow>
             if c1 = 0 then Inr (cam\<lparr>pos := (x, y)\<rparr>)
             else
               (case getitem2 gmap (py_int x) (py_int old_y) of
                  Inl e \<Rightarrow> Inl e
                | Inr c2 \<Rightarrow>
                    if c2 = 0 then Inr (cam\<lparr>pos := (x, old_y)\<rparr>)
                    else
                      (case getitem2 gmap (py_int old_x) (py_int y) of
                         Inl e \<Rightarrow> Inl e
                       | Inr c3 \<Rightarrow>
                           if c3 = 0 then Inr (cam\<lparr>pos := (old_x, y)\<rparr>)
                           else Inr cam))))"

text \<open>
  The cell of the map under a position, \<open>game_map[int(x), int(y)]\<close>, and the positions
  for which this lookup does not raise: the map has two dimensions and each truncated
  coordinate is an index numpy accepts for its dimension (a negative one counts from the
  end).
\<close>

definition cell :: "ndarray \<Rightarrow> vec2 \<Rightarrow> error + nat" where
  "cell gmap p = (case p of (x, y) \<Rightarrow> getitem2 gmap (py_int x) (py_int y))"

fun in_bounds :: "ndarray \<Rightarrow> vec2 \<Rightarrow> bool" where
  "in_bounds (Array1 xs) p = False"
| "in_bounds (Array2 n m rows) p =
     (- int n \<le> py_int (fst p) \<and> py_int (fst p) < int n
      \<and> - int m \<le> py_int (snd p) \<and> py_int (snd p) < int m)"

section \<open>Sprites and the engine (sprite.py, read_assets.py, engine.py)\<close>

text \<open>A value as \<open>json.load\<close> returns it; an object is the association list of its dictionary.\<close>

datatype json =
    JNull
  | JBool bool
  | JInt int
  | JFloat real
  | JString string
  | JArray "json list"
  | JObject "(string \<times> json) list"

text \<open>
  \<^verbatim>\<open>
  @dataclass
  class Sprite:
      pos: tuple[float, float]
      texture_index: int
  \<close>
  A dataclass does not check the annotations of its fields: \<open>pos\<close> is whatever tuple the
  loader made and \<open>texture_index\<close> whatever value the file gave.
\<close>

record Sprite =
  sprite_pos :: "json list"
  texture_index :: json

text \<open>Iterating over a value, as \<open>for\<close> and \<open>tuple\<close> do, and subscripting it with a string.\<close>

fun py_iter :: "json \<Rightarrow> error + json list" where
  "py_iter (JArray xs) = Inr xs"
| "py_iter (JObject kvs) = Inr (map (\<lambda>kv. JString (fst kv)) kvs)"
| "py_iter (JString s) = Inr (map (\<lambda>c. JString [c]) s)"
| "py_iter v = Inl TypeError"

fun getitem_str :: "json \<Rightarrow> string \<Rightarrow> error + json" where
  "getitem_str (JObject kvs) k =
     (case map_of kvs k of None \<Rightarrow> Inl KeyError | Some v \<Rightarrow> Inr v)"
| "getitem_str v k = Inl TypeError"

text \<open>
  \<^verbatim>\<open>
  def iter_from_json(path):
      with open(path) as file:
          data = json.load(file)
      for sprite_data in data:
          pos = tuple(sprite_data["pos"])
          yield Sprite(pos=pos, texture_index=sprite_data["texture_index"])
  \<close>
  The model takes the loaded \<open>data\<close> and returns all the sprites the generator yields, or
  the first exception of the loop.
\<close>

definition sprite_from_json :: "json \<Rightarrow> error + Sprite" where
  "sprite_from_json sprite_data =
     (case getitem_str sprite_data ''pos'' of
        Inl e \<Rightarrow> Inl e
      | Inr p \<Rightarrow>
          (case py_iter p of
             Inl e \<Rightarrow> Inl e
           | Inr ps \<Rightarrow>
               (case getitem_str sprite_data ''texture_index'' of
                  Inl e \<Rightarrow> Inl e
                | Inr t \<Rightarrow> Inr \<lparr>sprite_pos = ps, texture_index = t\<rparr>)))"

definition iter_from_json :: "json \<Rightarrow> error + Sprite list" where
  "iter_from_json data =
     (case py_iter data of
        Inl e \<Rightarrow> Inl e
      | Inr items \<Rightarrow> comprehension sprite_from_json items)"

text \<open>
  Modelled from the spec: the constructor of \<open>Raycaster\<close> (module \<open>raycaster\<close>, which
  \<open>engine.py\<close> imports and which is not among the sources).  The spec says: a sprite or
  wall texture index with no matching loaded texture is a configuration error the core
  surfaces as a fatal precondition violation at load time (caught before any \<open>cast\<close>
  call); a map cell \<open>N > 0\<close> is a wall using texture index \<open>N - 1\<close>; a sprite's
  \<open>texture_index\<close> is an unsigned index.  The state of the ray-caster kept here is the
  texture mode, which the spec says \<open>toggle_textures\<close> flips.
\<close>

record Raycaster =
  textures_on :: bool

fun cells :: "ndarray \<Rightarrow> nat list" where
  "cells (Array1 xs) = xs"
| "cells (Array2 n m rows) = concat rows"

definition wall_texture_loaded :: "'w list \<Rightarrow> nat \<Rightarrow> bool" where
  "wall_texture_loaded wall_texs v = (v = 0 \<or> v - 1 < length wall_texs)"

fun sprite_texture_loaded :: "'s list \<Rightarrow> Sprite \<Rightarrow> bool" where
  "sprite_texture_loaded sprite_texs s =
     (case texture_index s of
        JInt i \<Rightarrow> 0 \<le> i \<and> i < int (length sprite_texs)
      | _ \<Rightarrow> False)"

definition Raycaster_init ::
  "ndarray \<Rightarrow> Sprite list \<Rightarrow> 'w list \<Rightarrow> 's list \<Rightarrow> error + Raycaster" where
  "Raycaster_init gmap sps wall_texs sprite_texs =
     (if list_all (wall_texture_loaded wall_texs) (cells gmap)
         \<and> list_all (sprite_texture_loaded sprite_texs) sps
      then Inr \<lparr>textures_on = True\<rparr>
      else Inl PreconditionViolation)"

text \<open>
  \<^verbatim>\<open>
  @dataclass
  class Engine:
      camera: Camera
      game_map: NDArray[np.uint32]
      sprites: list[Sprite]
      wall_textures: list[NDArray[np.uint8]]
      sprite_textures: list[NDArray[np.str_]]
      rotation_speed: float = 3.0
      translation_speed: float = 5.0

      def __post_init__(self):
          self.caster = Raycaster(self)
  \<close>
  A wall texture is an array of digits and a sprite texture an array of characters, held
  here as the list of its rows.  Constructing an engine stores the fields and then runs
  \<open>__post_init__\<close>; an exception of the \<open>Raycaster\<close> constructor leaves no engine.
\<close>

record Engine =
  camera :: Camera
  game_map :: ndarray
  sprites :: "Sprite list"
  wall_textures :: "ndarray list"
  sprite_textures :: "string list list"
  rotation_speed :: real
  translation_speed :: real
  caster :: Raycaster

definition Engine_init ::
  "Camera \<Rightarrow> ndarray \<Rightarrow> Sprite list \<Rightarrow> ndarray list \<Rightarrow> string list list \<Rightarrow> real \<Rightarrow> real
     \<Rightarrow> error + Engine" where
  "Engine_init cam gmap sps wall_texs sprite_texs rot_speed trans_speed =
     (case Raycaster_init gmap sps wall_texs sprite_texs of
        Inl e \<Rightarrow> Inl e
      | Inr c \<Rightarrow>
          Inr \<lparr>camera = cam, game_map = gmap, sprites = sps, wall_textures = wall_texs,
               sprite_textures = sprite_texs, rotation_speed = rot_speed,
               translation_speed = trans_speed, caster = c\<rparr>)"

section \<open>Properties of the camera\<close>

subsection \<open>Matrix product, rotation and norm\<close>

lemma matmul_simp:
  "matmul ((a11, a12), (a21, a22)) ((b11, b12), (b21, b22)) =
     ((a11 * b11 + a12 * b21, a11 * b12 + a12 * b22),
      (a21 * b11 + a22 * b21, a21 * b12 + a22 * b22))"
  by (simp add: matmul_def)

lemma rot_simp: "rotation_matrix t = ((cos t, sin t), (- sin t, cos t))"
  by (simp add: rotation_matrix_def Let_def)

lemma plane_build_plane:
  "plane (build_plane c t f) =
     ((1001 / 1000 * cos t - 1 / 1000 * sin t, 1001 / 1000 * sin t + 1 / 1000 * cos t),
      (- (f * sin t), f * cos t))"
  by (simp add: build_plane_def Let_def rot_simp matmul_simp)

lemma cos_sin_sq: "cos t * cos t + sin t * sin t = (1::real)"
  using sin_cos_squared_add2 [of t] by (simp add: power2_eq_square)

lemma scale_cos_sin: "(u * cos t) * cos t + (u * sin t) * sin t = (u::real)"
proof -
  have "(u * cos t) * cos t + (u * sin t) * sin t = u * (cos t * cos t + sin t * sin t)"
    by (simp only: distrib_left mult.assoc)
  then show ?thesis by (simp only: cos_sin_sq mult_1_right)
qed

lemma norm_rot: "sqrt ((f * sin t) * (f * sin t) + (f * cos t) * (f * cos t)) = \<bar>f\<bar>"
proof -
  have "(f * sin t) * (f * sin t) + (f * cos t) * (f * cos t)
        = f * ((f * cos t) * cos t + (f * sin t) * sin t)"
    by (simp only: distrib_left mult_ac add.commute)
  then have "(f * sin t) * (f * sin t) + (f * cos t) * (f * cos t) = f * f"
    by (simp only: scale_cos_sin)
  then show ?thesis by simp
qed

lemma fov_build_plane: "fov (build_plane c t f) = \<bar>f\<bar>"
  by (simp add: fov_def plane_build_plane linalg_norm_def norm_rot)

lemma rot_cancel:
  "(a * cos t - b * sin t) * cos t + (a * sin t + b * cos t) * sin t = (a::real)"
  "(a * sin t + b * cos t) * cos t - (a * cos t - b * sin t) * sin t = (b::real)"
proof -
  have "(a * cos t - b * sin t) * cos t + (a * sin t + b * cos t) * sin t
        = (a * cos t) * cos t + (a * sin t) * sin t"
    by (simp add: algebra_simps)
  then show "(a * cos t - b * sin t) * cos t + (a * sin t + b * cos t) * sin t = a"
    by (simp only: scale_cos_sin)
  have "(a * sin t + b * cos t) * cos t - (a * cos t - b * sin t) * sin t
        = (b * cos t) * cos t + (b * sin t) * sin t"
    by (simp add: algebra_simps)
  then show "(a * sin t + b * cos t) * cos t - (a * cos t - b * sin t) * sin t = b"
    by (simp only: scale_cos_sin)
qed

lemma matmul_rot:
  "matmul ((a, b), (d, e)) (rotation_matrix t) =
     ((a * cos t - b * sin t, a * sin t + b * cos t),
      (d * cos t - e * sin t, d * sin t + e * cos t))"
  by (simp add: rot_simp matmul_simp)

lemma matmul_rot_inv:
  "matmul (matmul P (rotation_matrix t)) (rotation_matrix (- t)) = P"
proof -
  obtain a b d e where p: "P = ((a, b), (d, e))"
    by (metis surj_pair)
  have "matmul (matmul P (rotation_matrix t)) (rotation_matrix (- t)) =
     (((a * cos t - b * sin t) * cos t + (a * sin t + b * cos t) * sin t,
       (a * sin t + b * cos t) * cos t - (a * cos t - b * sin t) * sin t),
      ((d * cos t - e * sin t) * cos t + (d * sin t + e * cos t) * sin t,
       (d * sin t + e * cos t) * cos t - (d * cos t - e * sin t) * sin t))"
    unfolding p matmul_rot by (simp add: rot_simp matmul_simp)
  then show ?thesis by (simp only: rot_cancel p)
qed

lemma cos_pos_range:
  assumes "- pi < a" "a \<le> pi" "0 < cos a"
  shows "- (pi / 2) < a \<and> a < pi / 2"
proof -
  have "\<not> pi / 2 \<le> a"
  proof
    assume h: "pi / 2 \<le> a"
    have "0 \<le> a - pi / 2" "a - pi / 2 \<le> pi" using h assms(2) by simp_all
    then have "0 \<le> sin (a - pi / 2)" by (rule sin_ge_zero)
    then show False using assms(3) by (simp add: sin_diff)
  qed
  moreover have "\<not> a \<le> - (pi / 2)"
  proof
    assume h: "a \<le> - (pi / 2)"
    have "0 \<le> - a - pi / 2" "- a - pi / 2 \<le> pi" using h assms(1) by simp_all
    then have "0 \<le> sin (- a - pi / 2)" by (rule sin_ge_zero)
    then show False using assms(3) by (simp add: sin_diff)
  qed
  ultimately show ?thesis by simp
qed

lemma cos_zero_range:
  assumes "- pi < a" "a \<le> pi" "cos a = 0"
  shows "a = pi / 2 \<or> a = - (pi / 2)"
proof (cases "0 \<le> a")
  case True
  have "cos a = cos (pi / 2)" using assms(3) by simp
  moreover have "0 \<le> pi / 2" "pi / 2 \<le> pi" by simp_all
  ultimately have "a = pi / 2" using True assms(2) cos_inj_pi [of a "pi / 2"] by blast
  then show ?thesis by simp
next
  case False
  have "cos (- a) = cos (pi / 2)" using assms(3) by simp
  moreover have "0 \<le> pi / 2" "pi / 2 \<le> pi" by simp_all
  moreover have "0 \<le> - a" "- a \<le> pi" using False assms(1) by simp_all
  ultimately have "- a = pi / 2" using cos_inj_pi [of "- a" "pi / 2"] by blast
  then show ?thesis by simp
qed

lemma arctan2_polar:
  assumes r: "0 < r" and lo: "- pi < a" and hi: "a \<le> pi"
  shows "arctan2 (r * sin a) (r * cos a) = a"
proof -
  have q: "r * sin a / (r * cos a) = tan a" using r by (simp add: tan_def)
  consider (pos) "0 < cos a" | (zero) "cos a = 0" | (neg) "cos a < 0" by linarith
  then show ?thesis
  proof cases
    case pos
    then have "- (pi / 2) < a \<and> a < pi / 2" using cos_pos_range lo hi by blast
    then have t: "arctan (tan a) = a" by (simp add: arctan_tan)
    have x: "0 < r * cos a" using r pos by simp
    have "arctan2 (r * sin a) (r * cos a) = arctan (r * sin a / (r * cos a))"
      unfolding arctan2_def using x by (simp only: if_True)
    then show ?thesis by (simp only: q t)
  next
    case neg
    have x: "r * cos a < 0" using r neg by (simp add: mult_pos_neg)
    then have nx: "\<not> 0 < r * cos a" by simp
    show ?thesis
    proof (cases "0 \<le> sin a")
      case True
      have a0: "0 \<le> a"
      proof (rule ccontr)
        assume "\<not> 0 \<le> a"
        then have "0 < - a" "- a < pi" using lo by simp_all
        then have "0 < sin (- a)" by (rule sin_gt_zero)
        then show False using True by simp
      qed
      have "0 < cos (a - pi)" using neg by (simp add: cos_diff)
      moreover have "a \<noteq> 0" using neg by auto
      then have "- pi < a - pi" "a - pi \<le> pi" using a0 hi by auto
      ultimately have "- (pi / 2) < a - pi \<and> a - pi < pi / 2" using cos_pos_range by blast
      then have "arctan (tan (a - pi)) = a - pi" using arctan_tan [of "a - pi"] by blast
      moreover have "tan (a - pi) = tan a" using tan_periodic_pi [of "a - pi"] by simp
      ultimately have t: "arctan (tan a) + pi = a" by simp
      have y: "0 \<le> r * sin a" using r True by simp
      have "arctan2 (r * sin a) (r * cos a) = arctan (r * sin a / (r * cos a)) + pi"
        unfolding arctan2_def using x nx y by (simp only: if_True if_False simp_thms)
      then show ?thesis by (simp only: q t)
    next
      case False
      then have s: "sin a < 0" by simp
      have a0: "a < 0"
      proof (rule ccontr)
        assume "\<not> a < 0"
        then have "0 \<le> a" by simp
        then have "0 \<le> sin a" using hi by (rule sin_ge_zero)
        then show False using s by simp
      qed
      have "0 < cos (a + pi)" using neg by (simp add: cos_add)
      moreover have "- pi < a + pi" "a + pi \<le> pi" using a0 lo by auto
      ultimately have "- (pi / 2) < a + pi \<and> a + pi < pi / 2" using cos_pos_range by blast
      then have "arctan (tan (a + pi)) = a + pi" using arctan_tan [of "a + pi"] by blast
      then have t: "arctan (tan a) - pi = a" by simp
      have y: "\<not> 0 \<le> r * sin a" using r s by (simp add: mult_pos_neg not_le)
      have "arctan2 (r * sin a) (r * cos a) = arctan (r * sin a / (r * cos a)) - pi"
        unfolding arctan2_def using x nx y by (simp only: if_True if_False simp_thms)
      then show ?thesis by (simp only: q t)
    qed
  next
    case zero
    from cos_zero_range [OF lo hi zero] show ?thesis
    proof
      assume e: "a = pi / 2"
      have "arctan2 (r * sin (pi / 2)) (r * cos (pi / 2)) = pi / 2"
        using r by (simp add: arctan2_def)
      then show ?thesis by (simp only: e)
    next
      assume e: "a = - (pi / 2)"
      have "arctan2 (r * sin (- (pi / 2))) (r * cos (- (pi / 2))) = - (pi / 2)"
        using r by (simp add: arctan2_def)
      then show ?thesis by (simp only: e)
    qed
  qed
qed


lemma principal_angle: "\<exists>k::int. - pi < a - 2 * pi * of_int k \<and> a - 2 * pi * of_int k \<le> pi"
proof -
  define y where "y = (a - pi) / (2 * pi)"
  define k where "k = \<lceil>y\<rceil>"
  have c: "of_int k - 1 < y" "y \<le> of_int k"
    using ceiling_correct [of y] by (simp_all add: k_def)
  have ay: "a = 2 * pi * y + pi" by (simp add: y_def field_simps)
  have "2 * pi * y \<le> 2 * pi * of_int k" using c(2) by simp
  then have "a - 2 * pi * of_int k \<le> pi" using ay by linarith
  moreover have "2 * pi * (of_int k - 1) < 2 * pi * y" using c(1) by simp
  then have "- pi < a - 2 * pi * of_int k" using ay by (simp add: algebra_simps)
  ultimately show ?thesis by blast
qed

lemma arctan2_polar_mod:
  assumes r: "0 < r"
  shows "\<exists>k::int. arctan2 (r * sin a) (r * cos a) = a - 2 * pi * of_int k"
proof -
  obtain k :: int where k: "- pi < a - 2 * pi * of_int k" "a - 2 * pi * of_int k \<le> pi"
    using principal_angle [of a] by blast
  have "sin (a - 2 * pi * of_int k) = sin a" "cos (a - 2 * pi * of_int k) = cos a"
    by (simp_all add: sin_diff cos_diff)
  then have "arctan2 (r * sin a) (r * cos a) = a - 2 * pi * of_int k"
    using arctan2_polar [OF r k] by simp
  then show ?thesis by blast
qed

lemma arctan_le_self: "0 \<le> x \<Longrightarrow> arctan x \<le> x"
proof -
  assume x: "0 \<le> x"
  let ?f = "\<lambda>u. u - arctan u"
  have "\<And>u. \<exists>y. (?f has_real_derivative y) (at u) \<and> 0 \<le> y"
  proof -
    fix u :: real
    have "(?f has_real_derivative 1 - inverse (1 + u\<^sup>2)) (at u)"
      by (auto intro!: derivative_eq_intros)
    moreover have "inverse (1 + u\<^sup>2) \<le> 1"
      by (simp add: inverse_le_1_iff)
    ultimately show "\<exists>y. (?f has_real_derivative y) (at u) \<and> 0 \<le> y"
      by (intro exI [of _ "1 - inverse (1 + u\<^sup>2)"]) simp
  qed
  then have "?f 0 \<le> ?f x"
    by (intro DERIV_nonneg_imp_nondecreasing [OF x]) blast
  then show ?thesis by simp
qed

lemma arctan_lower: "0 \<le> x \<Longrightarrow> x / (1 + x) \<le> arctan x"
proof -
  assume x: "0 \<le> x"
  have "1 + x\<^sup>2 \<le> (1 + x)\<^sup>2" using x by (simp add: power2_eq_square algebra_simps)
  then have "sqrt (1 + x\<^sup>2) \<le> 1 + x" using x by (intro real_le_lsqrt) auto
  moreover have "0 < sqrt (1 + x\<^sup>2)" by (simp add: add_pos_nonneg)
  ultimately have "x / (1 + x) \<le> x / sqrt (1 + x\<^sup>2)"
    using x by (intro divide_left_mono) (auto simp: add_pos_nonneg)
  also have "\<dots> = sin (arctan x)" by (simp add: sin_arctan)
  also have "\<dots> \<le> arctan x" using x by (intro sin_x_le_x) simp
  finally show ?thesis .
qed

lemma delta_bounds: "1 / 1002 \<le> arctan (1 / 1001)" "arctan (1 / 1001) \<le> 1 / 1001"
  using arctan_lower [of "1 / 1001"] arctan_le_self [of "1 / 1001"] by simp_all

lemma offset_polar:
  "1001 / 1000 = (1001 / 1000 / cos (arctan (1 / 1001))) * cos (arctan (1 / 1001))"
  "1 / 1000 = (1001 / 1000 / cos (arctan (1 / 1001))) * sin (arctan (1 / 1001))"
proof -
  let ?d = "arctan (1 / 1001 :: real)"
  have c: "cos ?d \<noteq> 0" by simp
  show "1001 / 1000 = (1001 / 1000 / cos ?d) * cos ?d" using c by simp
  have "(1001 / 1000 / cos ?d) * sin ?d = 1001 / 1000 * tan ?d"
    by (simp add: tan_def)
  also have "\<dots> = 1 / 1000" by (simp add: tan_arctan)
  finally show "1 / 1000 = (1001 / 1000 / cos ?d) * sin ?d" by (rule sym)
qed

lemma offset_radius_pos: "0 < 1001 / 1000 / cos (arctan (1 / 1001 :: real))"
proof -
  have "0 < cos (arctan (1 / 1001 :: real))"
    by (rule cos_gt_zero_pi [OF arctan_lbound arctan_ubound])
  then show ?thesis by simp
qed

lemma row0_build_plane:
  "fst (plane (build_plane c t f)) =
     ((1001 / 1000 / cos (arctan (1 / 1001))) * cos (t + arctan (1 / 1001)),
      (1001 / 1000 / cos (arctan (1 / 1001))) * sin (t + arctan (1 / 1001)))"
proof -
  let ?d = "arctan (1 / 1001 :: real)"
  let ?r = "1001 / 1000 / cos ?d"
  have "?r * cos (t + ?d) = (?r * cos ?d) * cos t - (?r * sin ?d) * sin t"
    by (simp only: cos_add algebra_simps)
  then have x: "?r * cos (t + ?d) = 1001 / 1000 * cos t - 1 / 1000 * sin t"
    by (simp only: offset_polar [symmetric])
  have "?r * sin (t + ?d) = (?r * cos ?d) * sin t + (?r * sin ?d) * cos t"
    by (simp only: sin_add algebra_simps)
  then have y: "?r * sin (t + ?d) = 1001 / 1000 * sin t + 1 / 1000 * cos t"
    by (simp only: offset_polar [symmetric])
  show ?thesis by (simp only: plane_build_plane fst_conv x y)
qed

lemma theta_build_plane:
  "theta (build_plane c t f) =
     arctan2 ((1001 / 1000 / cos (arctan (1 / 1001))) * sin (t + arctan (1 / 1001)))
             ((1001 / 1000 / cos (arctan (1 / 1001))) * cos (t + arctan (1 / 1001)))"
  by (simp only: theta_def row0_build_plane prod.case)

lemma theta_build_plane_principal:
  assumes "- pi < t + arctan (1 / 1001)" "t + arctan (1 / 1001) \<le> pi"
  shows "theta (build_plane c t f) = t + arctan (1 / 1001)"
  by (simp only: theta_build_plane arctan2_polar [OF offset_radius_pos assms])

lemma theta_build_plane_mod:
  "\<exists>k::int. theta (build_plane c t f) = t + arctan (1 / 1001) - 2 * pi * of_int k"
  by (simp only: theta_build_plane arctan2_polar_mod [OF offset_radius_pos])




subsection \<open>The accessors after construction and after the setters\<close>

lemma pos_build_plane: "pos (build_plane c t f) = pos c"
  by (simp add: build_plane_def Let_def)

lemma fov_nonneg: "0 \<le> fov c"
  by (simp add: fov_def linalg_norm_def split: prod.split)

lemma fov_Camera_init:
  "fov (Camera_init p th f) = (if 1 < f then 1 else if f < 0 then 0 else f)"
  by (simp add: Camera_init_def Let_def fov_build_plane)

lemma fov_set_theta: "fov (set_theta c th) = fov c"
  by (simp add: set_theta_def fov_build_plane fov_nonneg)

lemma theta_set_fov_mod:
  "\<exists>k::int. theta (set_fov c f) = theta c + arctan (1 / 1001) - 2 * pi * of_int k"
  unfolding set_fov_def by (rule theta_build_plane_mod)

lemma theta_Camera_init_0: "theta (Camera_init p 0 f) = arctan (1 / 1001)"
proof -
  have "- pi < 0 + arctan (1 / 1001 :: real)"
    using arctan_lbound [of "1 / 1001"] pi_gt_zero by linarith
  moreover have "0 + arctan (1 / 1001 :: real) \<le> pi"
    using arctan_ubound [of "1 / 1001"] pi_gt_zero by linarith
  ultimately have "theta (build_plane \<lparr>pos = p, plane = ((0, 0), (0, 0))\<rparr> 0
      (if 1 < f then 1 else if f < 0 then 0 else f)) = 0 + arctan (1 / 1001)"
    by (rule theta_build_plane_principal)
  then show ?thesis by (simp add: Camera_init_def Let_def)
qed

subsection \<open>The claims about the camera\<close>

text \<open>
  The constructor clamps: the \<open>fov\<close> read back from a new camera is \<open>1\<close> for an argument
  above \<open>1\<close>, \<open>0\<close> for one below \<open>0\<close>, and the argument otherwise (lemma
  \<open>fov_Camera_init\<close>).  The setter of \<open>fov\<close> has no such test.
\<close>

text \<open>
  Claim C1 says that a field of view outside \<open>[0, 1]\<close> is clamped also when it is given
  through the setter of \<open>fov\<close>, so that the accessor returns \<open>0\<close> or \<open>1\<close>.  The setter
  passes its argument to \<open>_build_plane\<close> as it is: on the default camera, after
  \<open>camera.fov = 2.0\<close> the accessor returns \<open>2\<close>.
\<close>
theorem fov_setter_not_clamped:
  "fov (set_fov (Camera_init (0, 0) 0 (66 / 100)) 2) = 2"
  by (simp add: set_fov_def fov_build_plane)

text \<open>
  Claim C2: for every position, angle and field of view, the constructor stores the
  position and builds the plane as the matrix product of \<open>[[1.001, 0.001], [0, f]]\<close> and
  \<open>R(theta) = [[cos theta, sin theta], [- sin theta, cos theta]]\<close>, where \<open>f\<close> is the given
  field of view clamped to \<open>[0, 1]\<close>.  The third conjunct writes the four entries of that
  product out.
\<close>
theorem Camera_init_plane:
  "pos (Camera_init p th f) = p
   \<and> plane (Camera_init p th f) =
       matmul ((1001 / 1000, 1 / 1000), (0, max 0 (min 1 f)))
              ((cos th, sin th), (- sin th, cos th))
   \<and> plane (Camera_init p th f) =
       ((1001 / 1000 * cos th - 1 / 1000 * sin th, 1001 / 1000 * sin th + 1 / 1000 * cos th),
        (- (max 0 (min 1 f) * sin th), max 0 (min 1 f) * cos th))"
proof -
  have cl: "(if 1 < f then 1 else if f < 0 then 0 else f) = max 0 (min 1 f)"
    by (simp add: max_def min_def)
  have "pos (Camera_init p th f) = p"
    by (simp add: Camera_init_def Let_def pos_build_plane)
  moreover have pl: "plane (Camera_init p th f) =
       ((1001 / 1000 * cos th - 1 / 1000 * sin th, 1001 / 1000 * sin th + 1 / 1000 * cos th),
        (- (max 0 (min 1 f) * sin th), max 0 (min 1 f) * cos th))"
    unfolding Camera_init_def Let_def cl by (rule plane_build_plane)
  moreover have "matmul ((1001 / 1000, 1 / 1000), (0, max 0 (min 1 f)))
              ((cos th, sin th), (- sin th, cos th)) =
       ((1001 / 1000 * cos th - 1 / 1000 * sin th, 1001 / 1000 * sin th + 1 / 1000 * cos th),
        (- (max 0 (min 1 f) * sin th), max 0 (min 1 f) * cos th))"
    by (simp add: matmul_simp)
  ultimately show ?thesis by simp
qed

text \<open>
  Claim C3: for every camera and angle, \<open>rotate\<close> replaces the plane with the product of
  the plane and \<open>R(theta)\<close> and leaves the position unchanged.  The third conjunct writes
  the entries of the product out.
\<close>
theorem Camera_rotate_plane:
  "pos (Camera_rotate c th) = pos c
   \<and> plane (Camera_rotate c th) = matmul (plane c) ((cos th, sin th), (- sin th, cos th))
   \<and> plane (Camera_rotate c th) =
       (case plane c of ((a, b), (d, e)) \<Rightarrow>
          ((a * cos th - b * sin th, a * sin th + b * cos th),
           (d * cos th - e * sin th, d * sin th + e * cos th)))"
  by (simp add: Camera_rotate_def rot_simp [symmetric] matmul_rot split: prod.split)

text \<open>
  Claim C4: for every camera and angle, rotating by \<open>theta\<close> and then by \<open>- theta\<close>
  restores the plane, exactly in real arithmetic (the whole camera is restored, since
  \<open>rotate\<close> touches nothing else).
\<close>
theorem Camera_rotate_inverse: "Camera_rotate (Camera_rotate c th) (- th) = c"
  by (simp add: Camera_rotate_def matmul_rot_inv)

text \<open>
  Claim C9: for every camera and angle, the value of the accessor \<open>fov\<close> (the Euclidean
  norm of the second row of the plane) is unchanged by \<open>rotate\<close>, in real arithmetic.
\<close>
theorem fov_Camera_rotate: "fov (Camera_rotate c th) = fov c"
proof -
  obtain a b d e where p: "plane c = ((a, b), (d, e))"
    by (metis surj_pair)
  have "(d * cos th - e * sin th) * (d * cos th - e * sin th)
         + (d * sin th + e * cos th) * (d * sin th + e * cos th)
        = d * ((d * cos th) * cos th + (d * sin th) * sin th)
          + e * ((e * cos th) * cos th + (e * sin th) * sin th)"
    by (simp add: algebra_simps)
  then have "(d * cos th - e * sin th) * (d * cos th - e * sin th)
         + (d * sin th + e * cos th) * (d * sin th + e * cos th) = d * d + e * e"
    by (simp only: scale_cos_sin)
  then show ?thesis
    by (simp add: fov_def Camera_rotate_def p matmul_rot linalg_norm_def)
qed




text \<open>
  Claim C6 has two halves.  Setting \<open>theta\<close> leaves the accessor \<open>fov\<close> unchanged (lemma
  \<open>fov_set_theta\<close>).  Setting \<open>fov\<close> does not leave the accessor \<open>theta\<close> unchanged: the
  setter rebuilds the plane from the accessor \<open>theta\<close>, which is the angle of the row
  \<open>[1.001, 0.001] R(t)\<close> and so exceeds the angle \<open>t\<close> the plane was built from by
  \<open>arctan (1 / 1001)\<close> (lemma \<open>theta_set_fov_mod\<close>).  On the default camera, the accessor
  returns \<open>arctan (1 / 1001)\<close>, and after \<open>camera.fov = 0.5\<close> twice that: the camera has
  turned by more than \<open>1 / 1002\<close>.
\<close>
theorem set_fov_turns_camera:
  "theta (Camera_init (0, 0) 0 (66 / 100)) = arctan (1 / 1001)
   \<and> theta (set_fov (Camera_init (0, 0) 0 (66 / 100)) (1 / 2)) = 2 * arctan (1 / 1001)
   \<and> 1 / 1002 \<le> theta (set_fov (Camera_init (0, 0) 0 (66 / 100)) (1 / 2))
                    - theta (Camera_init (0, 0) 0 (66 / 100))"
proof -
  let ?d = "arctan (1 / 1001 :: real)"
  let ?c = "Camera_init (0, 0) 0 (66 / 100)"
  have d: "1 / 1002 \<le> ?d" "?d \<le> 1 / 1001" using delta_bounds by simp_all
  have t0: "theta ?c = ?d" by (rule theta_Camera_init_0)
  have "- pi < ?d + ?d" "?d + ?d \<le> pi" using d pi_ge_two by linarith+
  then have "theta (build_plane ?c ?d (1 / 2)) = ?d + ?d"
    by (rule theta_build_plane_principal)
  then have "theta (build_plane ?c (theta ?c) (1 / 2)) = ?d + ?d"
    by (simp only: t0)
  then have t1: "theta (set_fov ?c (1 / 2)) = 2 * ?d"
    by (simp only: set_fov_def mult_2)
  show ?thesis using t0 t1 d by simp
qed

section \<open>Properties of the map reader\<close>

lemma comprehension_total:
  "\<forall>x \<in> set xs. f x = Inr (g x) \<Longrightarrow> comprehension f xs = Inr (map g xs)"
  by (induction xs) simp_all

lemma int_of_cell_digit:
  "c \<in> set ''0123456789'' \<Longrightarrow> int_of_cell c = Inr (of_char c - 48)"
  by (auto simp: int_of_cell_def)

lemma digit_of_char:
  "c \<in> set ''0123456789'' \<Longrightarrow> (of_char c :: nat) - 48 < 10 \<and> ''0123456789'' ! (of_char c - 48) = c"
  by auto

lemma row_of_digits:
  assumes "\<forall>c \<in> set l. c \<in> set ''0123456789''"
  shows "comprehension int_of_cell l = Inr (map (\<lambda>c. of_char c - 48) l)"
  using assms by (intro comprehension_total) (simp add: int_of_cell_digit)

lemma np_array_rectangular:
  assumes "rows \<noteq> []" "\<forall>r \<in> set rows. length r = m"
  shows "np_array rows = Inr (Array2 (length rows) m rows)"
proof (cases rows)
  case Nil
  then show ?thesis using assms(1) by simp
next
  case (Cons r rs)
  then have "length r = m" "\<forall>r' \<in> set rs. length r' = m" using assms(2) by simp_all
  then show ?thesis using Cons by (simp add: list_all_iff)
qed

lemma norm_index_nat: "i < n \<Longrightarrow> norm_index n (int i) = Inr i"
  by (simp add: norm_index_def)

lemma getitem2_T:
  assumes "x < m" "y < length rows"
  shows "getitem2 (ndarray_T (Array2 (length rows) m rows)) (int x) (int y) = Inr (rows ! y ! x)"
  using assms by (simp add: norm_index_nat)

text \<open>
  Claim C10, amended by the hypothesis that the text has at least one line: for every
  map text whose lines all consist of decimal digits and all have the same length \<open>L\<close>,
  \<open>read_map\<close> returns a two-dimensional array of shape \<open>(L, number of lines)\<close> whose entry
  at index \<open>(x, y)\<close> is the value of the digit at column \<open>x\<close> of line \<open>y\<close>: the map is
  stored transposed, the first index being the column.
\<close>

theorem read_map_transposed:
  assumes "lines = splitlines text" and "lines \<noteq> []"
    and "\<forall>l \<in> set lines. length l = L \<and> (\<forall>c \<in> set l. c \<in> set ''0123456789'')"
  shows "\<exists>a. read_map text = Inr a \<and> shape a = [L, length lines]
           \<and> (\<forall>x<L. \<forall>y<length lines. \<exists>v<10.
                 getitem2 a (int x) (int y) = Inr v \<and> ''0123456789'' ! v = lines ! y ! x)"
proof -
  define rows where "rows = map (map (\<lambda>c. (of_char c :: nat) - 48)) lines"
  have "\<forall>l \<in> set lines. comprehension int_of_cell l = Inr (map (\<lambda>c. of_char c - 48) l)"
    using assms(3) by (simp add: row_of_digits)
  then have c: "comprehension (comprehension int_of_cell) lines = Inr rows"
    unfolding rows_def by (rule comprehension_total)
  have n: "rows \<noteq> []" "length rows = length lines" using assms(2) by (simp_all add: rows_def)
  have "\<forall>r \<in> set rows. length r = L" using assms(3) by (auto simp: rows_def)
  then have a: "np_array rows = Inr (Array2 (length rows) L rows)"
    using n(1) by (rule np_array_rectangular [rotated])
  let ?a = "ndarray_T (Array2 (length rows) L rows)"
  have r: "read_map text = Inr ?a"
    by (simp add: read_map_def assms(1) [symmetric] c a)
  have s: "shape ?a = [L, length lines]" by (simp add: n(2))
  have e: "\<exists>v<10. getitem2 ?a (int x) (int y) = Inr v \<and> ''0123456789'' ! v = lines ! y ! x"
    if "x < L" "y < length lines" for x y
  proof -
    have l: "lines ! y \<in> set lines" using that(2) by simp
    then have len: "length (lines ! y) = L" using assms(3) by blast
    then have "lines ! y ! x \<in> set (lines ! y)" using that(1) by simp
    then have d: "lines ! y ! x \<in> set ''0123456789''" using assms(3) l by blast
    have "getitem2 ?a (int x) (int y) = Inr (rows ! y ! x)"
      using that n(2) by (intro getitem2_T) simp_all
    moreover have "rows ! y ! x = of_char (lines ! y ! x) - 48"
      using that len by (simp add: rows_def)
    ultimately show ?thesis using digit_of_char [OF d] by metis
  qed
  show ?thesis using r s e by blast
qed

text \<open>
  Claim C10 as it is stated also covers the empty text, whose lines (there are none) all
  consist of digits and all have any length \<open>L\<close>.  There \<open>np.array\<close> gets the empty list
  and returns the one-dimensional array of shape \<open>(0,)\<close>, which is its own transpose: the
  result is not a two-dimensional array of shape \<open>(L, 0)\<close>.
\<close>

theorem read_map_empty_text:
  "splitlines [] = [] \<and> read_map [] = Inr (Array1 []) \<and> shape (Array1 []) = [0]"
  by (simp add: read_map_def splitlines_def)

text \<open>The amended claim on a map of three lines of two digits, at column 1 of line 2.\<close>

theorem read_map_transposed_witness:
  "\<exists>a v. read_map ''12\<newline>34\<newline>56'' = Inr a \<and> shape a = [2, 3]
     \<and> getitem2 a 1 2 = Inr v \<and> ''0123456789'' ! v = CHR ''6''"
proof -
  let ?text = "''12\<newline>34\<newline>56''"
  let ?lines = "[''12'', ''34'', ''56'']"
  have 1: "?lines = splitlines ?text"
    by (simp add: splitlines_def is_linebreak_def)
  have 2: "?lines \<noteq> []" by simp
  have 3: "\<forall>l \<in> set ?lines. length l = 2 \<and> (\<forall>c \<in> set l. c \<in> set ''0123456789'')"
    by simp
  obtain a where a: "read_map ?text = Inr a" "shape a = [2, length ?lines]"
    and e: "\<forall>x<2. \<forall>y<length ?lines. \<exists>v<10.
              getitem2 a (int x) (int y) = Inr v \<and> ''0123456789'' ! v = ?lines ! y ! x"
    using read_map_transposed [OF 1 2 3] by blast
  have "(1::nat) < 2" "(2::nat) < length ?lines" by simp_all
  then have "\<exists>v<10. getitem2 a (int 1) (int 2) = Inr v \<and> ''0123456789'' ! v = ?lines ! 2 ! 1"
    using e by blast
  then obtain v where "getitem2 a 1 2 = Inr v" "''0123456789'' ! v = CHR ''6''"
    by auto
  then show ?thesis using a by auto
qed

section \<open>Properties of collision-checked movement\<close>

lemma norm_index_valid:
  "- int n \<le> i \<Longrightarrow> i < int n \<Longrightarrow> \<exists>k. norm_index n i = Inr k"
  by (simp add: norm_index_def)

lemma cell_in_bounds:
  assumes "in_bounds gm (x, y)"
  shows "\<exists>v. cell gm (x, y) = Inr v"
proof (cases gm)
  case (Array1 xs)
  then show ?thesis using assms by simp
next
  case (Array2 n m rows)
  then obtain i j where "norm_index n (py_int x) = Inr i" "norm_index m (py_int y) = Inr j"
    using assms norm_index_valid [of n "py_int x"] norm_index_valid [of m "py_int y"]
    by auto
  then show ?thesis using Array2 by (simp add: cell_def)
qed

lemma in_bounds_mix:
  "in_bounds gm (x, y) \<Longrightarrow> in_bounds gm (x', y') \<Longrightarrow> in_bounds gm (x, y')"
  by (cases gm) simp_all

lemma move_to_cases:
  assumes "pos cam = (old_x, old_y)"
    and "cell gm (x, y) = Inr c1" "cell gm (x, old_y) = Inr c2" "cell gm (old_x, y) = Inr c3"
  shows "move_to cam gm (x, y) =
           Inr (cam\<lparr>pos := (if c1 = 0 then (x, y) else if c2 = 0 then (x, old_y)
                             else if c3 = 0 then (old_x, y) else (old_x, old_y))\<rparr>)"
proof -
  have "cam\<lparr>pos := (old_x, old_y)\<rparr> = cam" using assms(1) by simp
  then show ?thesis using assms by (simp add: move_to_def cell_def)
qed

text \<open>
  Claim C7: for every camera, map and target position such that the truncated coordinates
  of the target and of the current position index within the bounds of the map,
  \<open>_move_to\<close> returns without an exception and moves the camera to the target when the
  cell of the target is \<open>0\<close>; otherwise to (target x, old y) when that cell is \<open>0\<close>;
  otherwise to (old x, target y) when that cell is \<open>0\<close>; otherwise it leaves the position
  as it was.  Hence a camera that starts in an empty cell ends in an empty cell.
\<close>

theorem move_to_slides:
  assumes "in_bounds gm (x, y)" and "in_bounds gm (old_x, old_y)"
    and "pos cam = (old_x, old_y)"
  shows "\<exists>c1 c2 c3.
           cell gm (x, y) = Inr c1 \<and> cell gm (x, old_y) = Inr c2 \<and> cell gm (old_x, y) = Inr c3
           \<and> move_to cam gm (x, y) =
               Inr (cam\<lparr>pos := (if c1 = 0 then (x, y) else if c2 = 0 then (x, old_y)
                                 else if c3 = 0 then (old_x, y) else (old_x, old_y))\<rparr>)
           \<and> (cell gm (old_x, old_y) = Inr 0 \<longrightarrow>
                (\<exists>cam'. move_to cam gm (x, y) = Inr cam' \<and> cell gm (pos cam') = Inr 0))"
proof -
  obtain c1 where c1: "cell gm (x, y) = Inr c1"
    using cell_in_bounds [OF assms(1)] by blast
  obtain c2 where c2: "cell gm (x, old_y) = Inr c2"
    using cell_in_bounds [OF in_bounds_mix [OF assms(1) assms(2)]] by blast
  obtain c3 where c3: "cell gm (old_x, y) = Inr c3"
    using cell_in_bounds [OF in_bounds_mix [OF assms(2) assms(1)]] by blast
  let ?p = "if c1 = 0 then (x, y) else if c2 = 0 then (x, old_y)
            else if c3 = 0 then (old_x, y) else (old_x, old_y)"
  have m: "move_to cam gm (x, y) = Inr (cam\<lparr>pos := ?p\<rparr>)"
    by (rule move_to_cases [OF assms(3) c1 c2 c3])
  have "cell gm ?p = Inr 0" if "cell gm (old_x, old_y) = Inr 0"
    using that c1 c2 c3 by simp
  then have "cell gm (old_x, old_y) = Inr 0 \<longrightarrow>
      (\<exists>cam'. move_to cam gm (x, y) = Inr cam' \<and> cell gm (pos cam') = Inr 0)"
    using m by simp
  then show ?thesis using c1 c2 c3 m by blast
qed

text \<open>
  Claim C7 on the 3x3 map with a wall ring, from the centre cell towards the wall on the
  east: the target cell and the cell (target x, old y) are walls, the cell
  (old x, target y) is empty, and the camera slides along the wall.
\<close>

theorem move_to_slides_witness:
  "move_to (Camera_init (3 / 2, 3 / 2) 0 (66 / 100))
     (Array2 3 3 [[1, 1, 1], [1, 0, 1], [1, 1, 1]]) (11 / 5, 17 / 10)
   = Inr ((Camera_init (3 / 2, 3 / 2) 0 (66 / 100))\<lparr>pos := (3 / 2, 17 / 10)\<rparr>)
   \<and> cell (Array2 3 3 [[1, 1, 1], [1, 0, 1], [1, 1, 1]]) (3 / 2, 17 / 10) = Inr 0"
proof -
  let ?gm = "Array2 3 3 [[1, 1, 1], [1, 0, 1], [1, 1, 1]]"
  let ?cam = "Camera_init (3 / 2, 3 / 2) 0 (66 / 100)"
  have 1: "in_bounds ?gm (11 / 5, 17 / 10)" by (simp add: py_int_def)
  have 2: "in_bounds ?gm (3 / 2, 3 / 2)" by (simp add: py_int_def)
  have 3: "pos ?cam = (3 / 2, 3 / 2)" by (simp add: Camera_init_def build_plane_def Let_def)
  have c: "cell ?gm (11 / 5, 17 / 10) = Inr 1" "cell ?gm (11 / 5, 3 / 2) = Inr 1"
    "cell ?gm (3 / 2, 17 / 10) = Inr 0"
    by (simp_all add: cell_def py_int_def norm_index_def)
  show ?thesis using move_to_slides [OF 1 2 3] c by auto
qed

section \<open>Properties of loading sprites and constructing the engine\<close>

text \<open>
  The loader checks no index: it yields the \<open>texture_index\<close> of the file as it is.
\<close>

lemma iter_from_json_keeps_index:
  "iter_from_json
     (JArray [JObject [(''pos'', JArray [JFloat 1, JFloat 2]), (''texture_index'', JInt 7)]])
   = Inr [\<lparr>sprite_pos = [JFloat 1, JFloat 2], texture_index = JInt 7\<rparr>]"
  by (simp add: iter_from_json_def sprite_from_json_def)

text \<open>
  Claim C8: for every configuration in which some sprite's \<open>texture_index\<close> has no
  matching sprite texture, or some wall cell \<open>v > 0\<close> of the map has no wall texture at
  index \<open>v - 1\<close>, constructing the engine raises the precondition violation.  No engine
  and no ray-caster exist then, so this happens before any \<open>cast\<close> call.  The check is
  the one of the \<open>Raycaster\<close> constructor, modelled from the spec.
\<close>

theorem Engine_init_unmatched_texture:
  assumes "(\<exists>s \<in> set sps. \<not> sprite_texture_loaded sprite_texs s)
           \<or> (\<exists>v \<in> set (cells gm). 0 < v \<and> length wall_texs \<le> v - 1)"
  shows "Engine_init cam gm sps wall_texs sprite_texs rot_speed trans_speed
           = Inl PreconditionViolation"
proof -
  have "\<not> (list_all (wall_texture_loaded wall_texs) (cells gm)
            \<and> list_all (sprite_texture_loaded sprite_texs) sps)"
    using assms by (auto simp: list_all_iff wall_texture_loaded_def)
  then show ?thesis by (simp add: Engine_init_def Raycaster_init_def)
qed

text \<open>
  Claim C8 on a sprite file whose only sprite has \<open>texture_index\<close> 7, loaded beside a single
  sprite texture.
\<close>

theorem Engine_init_unmatched_texture_witness:
  "iter_from_json
     (JArray [JObject [(''pos'', JArray [JFloat 1, JFloat 2]), (''texture_index'', JInt 7)]])
   = Inr [\<lparr>sprite_pos = [JFloat 1, JFloat 2], texture_index = JInt 7\<rparr>]
   \<and> Engine_init (Camera_init (3 / 2, 3 / 2) 0 (66 / 100))
       (Array2 3 3 [[1, 1, 1], [1, 0, 1], [1, 1, 1]])
       [\<lparr>sprite_pos = [JFloat 1, JFloat 2], texture_index = JInt 7\<rparr>]
       [Array2 1 1 [[5]]] [[''a'']] 3 5
     = Inl PreconditionViolation"
proof -
  let ?s = "\<lparr>sprite_pos = [JFloat 1, JFloat 2], texture_index = JInt 7\<rparr>"
  have "\<exists>s \<in> set [?s]. \<not> sprite_texture_loaded [[''a'']] s" by simp
  then have "(\<exists>s \<in> set [?s]. \<not> sprite_texture_loaded [[''a'']] s)
           \<or> (\<exists>v \<in> set (cells (Array2 3 3 [[1, 1, 1], [1, 0, 1], [1, 1, 1]])).
                 0 < v \<and> length [Array2 1 1 [[5]]] \<le> v - 1)"
    by (rule disjI1)
  from Engine_init_unmatched_texture [OF this] show ?thesis
    by (simp add: iter_from_json_def sprite_from_json_def)
qed

end
